theory Spec2Isabelle
  imports Main
begin

section \<open>Exceptions\<close>

text \<open>
  The exception classes that \<^verbatim>\<open>txaws/credentials.py\<close> raises or lets through, with the
  Python 2 standard classes above them. \<open>ConfigParserError\<close> is
  \<^verbatim>\<open>ConfigParser.Error\<close>; \<open>CompatCredentialsNotFoundError\<close> is the module's
  \<^verbatim>\<open>_CompatCredentialsNotFoundError\<close>.
\<close>

datatype exc_class =
    BaseException
  | Exception
  | StandardError
  | ValueError
  | RuntimeError
  | ConfigParserError
  | NoSectionError
  | NoOptionError
  | InterpolationError
  | InterpolationMissingOptionError
  | InterpolationSyntaxError
  | InterpolationDepthError
  | ParsingError
  | MissingSectionHeaderError
  | CredentialsNotFoundError
  | CompatCredentialsNotFoundError

text \<open>
  The direct base classes of each class. \<^verbatim>\<open>CredentialsNotFoundError\<close> is imported from
  \<^verbatim>\<open>txaws.exception\<close>, whose declaration is not among the sources: its bases are the
  parameter \<open>cnf_bases\<close>. The last equation is line 21 of \<^verbatim>\<open>credentials.py\<close>:
  \<^verbatim>\<open>class _CompatCredentialsNotFoundError(CredentialsNotFoundError, ValueError)\<close>.
\<close>

fun bases :: "exc_class list \<Rightarrow> exc_class \<Rightarrow> exc_class list" where
  "bases cnf_bases BaseException = []"
| "bases cnf_bases Exception = [BaseException]"
| "bases cnf_bases StandardError = [Exception]"
| "bases cnf_bases ValueError = [StandardError]"
| "bases cnf_bases RuntimeError = [StandardError]"
| "bases cnf_bases ConfigParserError = [Exception]"
| "bases cnf_bases NoSectionError = [ConfigParserError]"
| "bases cnf_bases NoOptionError = [ConfigParserError]"
| "bases cnf_bases InterpolationError = [ConfigParserError]"
| "bases cnf_bases InterpolationMissingOptionError = [InterpolationError]"
| "bases cnf_bases InterpolationSyntaxError = [InterpolationError]"
| "bases cnf_bases InterpolationDepthError = [InterpolationError]"
| "bases cnf_bases ParsingError = [ConfigParserError]"
| "bases cnf_bases MissingSectionHeaderError = [ParsingError]"
| "bases cnf_bases CredentialsNotFoundError = cnf_bases"
| "bases cnf_bases CompatCredentialsNotFoundError = [CredentialsNotFoundError, ValueError]"

text \<open>
  \<open>issubclass B c d\<close>: class \<open>c\<close> is \<open>d\<close> or derives from it through direct bases, as
  Python's \<^verbatim>\<open>issubclass(c, d)\<close>.
\<close>

inductive issubclass :: "exc_class list \<Rightarrow> exc_class \<Rightarrow> exc_class \<Rightarrow> bool"
  for B :: "exc_class list" where
  same: "issubclass B c c"
| derived: "d \<in> set (bases B c) \<Longrightarrow> issubclass B d e \<Longrightarrow> issubclass B c e"

code_pred issubclass .

text \<open>A raised exception: its class and its message.\<close>

datatype exn = Exn (exn_class: exc_class) (exn_message: string)

text \<open>
  \<open>caught_by B K e\<close>: a handler \<^verbatim>\<open>except K\<close> catches \<open>e\<close>, that is
  \<^verbatim>\<open>isinstance(e, K)\<close>.
\<close>

definition caught_by :: "exc_class list \<Rightarrow> exc_class \<Rightarrow> exn \<Rightarrow> bool" where
  "caught_by B K e = issubclass B (exn_class e) K"

section \<open>The environment of the process\<close>

text \<open>
  What \<^verbatim>\<open>SafeConfigParser\<close> holds for one option: the text that
  \<^verbatim>\<open>get(section, option)\<close> returns after \<^verbatim>\<open>%\<close>-interpolation, or the
  exception that interpolating the raw text raises.
\<close>

datatype interpolation_failure = MissingOption | BadSyntax | TooDeep

datatype option_value = Text string | Uninterpolable interpolation_failure string

text \<open>
  The parser's state: the options of the \<^verbatim>\<open>[DEFAULT]\<close> section and the options of
  every other section.
\<close>

record config =
  defaults :: "string \<rightharpoonup> option_value"
  sections :: "string \<rightharpoonup> (string \<rightharpoonup> option_value)"

text \<open>
  A file that can be opened either parses, or makes the parser raise
  \<^verbatim>\<open>MissingSectionHeaderError\<close> or \<^verbatim>\<open>ParsingError\<close> with some message.
\<close>

datatype parse_failure = NoHeader | BadLine

datatype disk_file = Wellformed config | Malformed parse_failure string

text \<open>
  \<open>environ\<close> is \<^verbatim>\<open>os.environ\<close>; \<open>pw_dir\<close> is the home directory of the password
  database, which \<^verbatim>\<open>os.path.expanduser\<close> uses when \<^verbatim>\<open>HOME\<close> is not set;
  \<open>files\<close> gives the files that \<^verbatim>\<open>open\<close> can open, by path.
\<close>

record world =
  environ :: "string \<rightharpoonup> string"
  pw_dir :: string
  files :: "string \<rightharpoonup> disk_file"

definition rstrip_slash :: "string \<Rightarrow> string" where
  "rstrip_slash s = rev (dropWhile (\<lambda>c. c = CHR ''/'') (rev s))"

text \<open>
  \<^verbatim>\<open>os.path.expanduser\<close> of \<^verbatim>\<open>posixpath\<close> on a path that is \<^verbatim>\<open>~\<close> or starts
  with \<^verbatim>\<open>~/\<close>, the only kind this module passes: the home directory is the value of
  \<^verbatim>\<open>HOME\<close> when it is set and the one of the password database otherwise, without its
  trailing slashes. A path that does not start with \<^verbatim>\<open>~\<close> is returned as it is; the
  form \<^verbatim>\<open>~user\<close> is not modelled.
\<close>

definition expanduser :: "world \<Rightarrow> string \<Rightarrow> string" where
  "expanduser w path =
     (if path = ''~'' \<or> take 2 path = ''~/'' then
        (let userhome = (case environ w ''HOME'' of Some h \<Rightarrow> h | None \<Rightarrow> pw_dir w);
             expanded = rstrip_slash userhome @ drop 1 path
         in if expanded = [] then ''/'' else expanded)
      else path)"

text \<open>
  Reading one more file into the parser: sections and options of the new file are added
  to those already there, the new value of an option replacing the old one.
\<close>

definition merge_config :: "config \<Rightarrow> config \<Rightarrow> config" where
  "merge_config old new =
     \<lparr>defaults = defaults old ++ defaults new,
      sections = (\<lambda>s. case sections new s of
                        None \<Rightarrow> sections old s
                      | Some d \<Rightarrow> (case sections old s of
                                     None \<Rightarrow> Some d
                                   | Some d0 \<Rightarrow> Some (d0 ++ d)))\<rparr>"

definition parse_exn :: "parse_failure \<Rightarrow> string \<Rightarrow> exn" where
  "parse_exn k msg =
     (case k of NoHeader \<Rightarrow> Exn MissingSectionHeaderError msg
              | BadLine \<Rightarrow> Exn ParsingError msg)"

text \<open>
  \<^verbatim>\<open>config.read(filenames)\<close>: a file that cannot be opened is skipped, a malformed file
  raises, and the list of the files read is returned together with the parser's state.
\<close>

fun config_read :: "world \<Rightarrow> config \<Rightarrow> string list \<Rightarrow> exn + (string list \<times> config)" where
  "config_read w c [] = Inr ([], c)"
| "config_read w c (filename # filenames) =
     (case files w filename of
        None \<Rightarrow> config_read w c filenames
      | Some (Malformed k msg) \<Rightarrow> Inl (parse_exn k msg)
      | Some (Wellformed parsed) \<Rightarrow>
          (case config_read w (merge_config c parsed) filenames of
             Inl e \<Rightarrow> Inl e
           | Inr (read_ok, c') \<Rightarrow> Inr (filename # read_ok, c')))"

definition empty_config :: config where
  "empty_config = \<lparr>defaults = Map.empty, sections = Map.empty\<rparr>"

text \<open>
  A string between single quotes: what \<^verbatim>\<open>'%s'\<close> formats, and what \<^verbatim>\<open>%r\<close>
  formats for a string without quotes, backslashes or unprintable characters (the section
  and option names of this module are such).
\<close>

definition quoted :: "string \<Rightarrow> string" where
  "quoted s = [CHR 0x27] @ s @ [CHR 0x27]"

definition DEFAULTSECT :: string where
  "DEFAULTSECT = ''DEFAULT''"

definition interpolation_exn :: "interpolation_failure \<Rightarrow> string \<Rightarrow> exn" where
  "interpolation_exn k msg =
     (case k of MissingOption \<Rightarrow> Exn InterpolationMissingOptionError msg
              | BadSyntax \<Rightarrow> Exn InterpolationSyntaxError msg
              | TooDeep \<Rightarrow> Exn InterpolationDepthError msg)"

text \<open>
  \<^verbatim>\<open>config.get(section, option)\<close>: \<^verbatim>\<open>NoSectionError\<close> for a section that is
  neither present nor \<^verbatim>\<open>DEFAULT\<close>, the option looked up in the section and then in the
  defaults, \<^verbatim>\<open>NoOptionError\<close> when it is in neither.
\<close>

definition config_get :: "config \<Rightarrow> string \<Rightarrow> string \<Rightarrow> exn + string" where
  "config_get c section opt =
     (case (case sections c section of
              Some d \<Rightarrow> Inr d
            | None \<Rightarrow> if section \<noteq> DEFAULTSECT
                      then Inl (Exn NoSectionError (''No section: '' @ quoted section))
                      else Inr Map.empty) of
        Inl e \<Rightarrow> Inl e
      | Inr sectiondict \<Rightarrow>
          (case (defaults c ++ sectiondict) opt of
             None \<Rightarrow> Inl (Exn NoOptionError
                            (''No option '' @ quoted opt @ '' in section: '' @ quoted section))
           | Some (Text v) \<Rightarrow> Inr v
           | Some (Uninterpolable k msg) \<Rightarrow> Inl (interpolation_exn k msg)))"

section \<open>txaws/credentials.py\<close>

definition ENV_ACCESS_KEY :: string where
  "ENV_ACCESS_KEY = ''AWS_ACCESS_KEY_ID''"

definition ENV_SECRET_KEY :: string where
  "ENV_SECRET_KEY = ''AWS_SECRET_ACCESS_KEY''"

definition ENV_SHARED_CREDENTIALS_FILE :: string where
  "ENV_SHARED_CREDENTIALS_FILE = ''AWS_SHARED_CREDENTIALS_FILE''"

text \<open>
  Python's \<^verbatim>\<open>not v\<close> for a value that is \<^verbatim>\<open>None\<close> or a string: true for
  \<^verbatim>\<open>None\<close> and for the empty string.
\<close>

definition py_not :: "string option \<Rightarrow> bool" where
  "py_not v = (case v of None \<Rightarrow> True | Some s \<Rightarrow> s = [])"

text \<open>
  \<^verbatim>\<open>_load_shared_credentials()\<close> (lines 64 to 74): a fresh parser reads the one path,
  and the function raises when the parser reports no file read.
\<close>

definition load_shared_credentials :: "world \<Rightarrow> exn + config" where
  "load_shared_credentials w =
     (let credentials_path =
            (case environ w ENV_SHARED_CREDENTIALS_FILE of
               Some p \<Rightarrow> p
             | None \<Rightarrow> expanduser w ''~/.aws/credentials'')
      in case config_read w empty_config [credentials_path] of
           Inl e \<Rightarrow> Inl e
         | Inr (read_ok, config) \<Rightarrow>
             if read_ok = [] then
               Inl (Exn CompatCredentialsNotFoundError
                      ''Could not find credentials in the environment or filesystem'')
             else Inr config)"

record AWSCredentials =
  access_key :: string
  secret_key :: string

text \<open>
  \<^verbatim>\<open>AWSCredentials.__init__(self, access_key="", secret_key="")\<close>. An argument is
  \<^verbatim>\<open>None\<close> or a string; an omitted argument is \<open>Some ''''\<close>, the default.
\<close>

definition AWSCredentials_init ::
  "world \<Rightarrow> string option \<Rightarrow> string option \<Rightarrow> exn + AWSCredentials" where
  "AWSCredentials_init w access_key_arg secret_key_arg =
     (case (if py_not access_key_arg then
              (let env_access_key = environ w ENV_ACCESS_KEY in
               if py_not env_access_key then
                 (case load_shared_credentials w of
                    Inl e \<Rightarrow> Inl e
                  | Inr config \<Rightarrow> config_get config ''default'' ''aws_access_key_id'')
               else Inr (the env_access_key))
            else Inr (the access_key_arg)) of
        Inl e \<Rightarrow> Inl e
      | Inr ak \<Rightarrow>
          (case (if py_not secret_key_arg then
                   (let env_secret_key = environ w ENV_SECRET_KEY in
                    if py_not env_secret_key then
                      (case load_shared_credentials w of
                         Inl e \<Rightarrow> Inl e
                       | Inr config \<Rightarrow> config_get config ''default'' ''aws_secret_access_key'')
                    else Inr (the env_secret_key))
                 else Inr (the secret_key_arg)) of
             Inl e \<Rightarrow> Inl e
           | Inr sk \<Rightarrow> Inr \<lparr>access_key = ak, secret_key = sk\<rparr>))"

text \<open>
  \<^verbatim>\<open>AWSCredentials.sign(self, bytes, hash_type="sha256")\<close>. The two HMAC functions come
  from \<^verbatim>\<open>txaws.util\<close>, which is not among the sources: they are parameters. A call
  that omits \<^verbatim>\<open>hash_type\<close> passes \<open>''sha256''\<close>.
\<close>

definition sign ::
  "(string \<Rightarrow> string \<Rightarrow> string) \<Rightarrow> (string \<Rightarrow> string \<Rightarrow> string) \<Rightarrow>
   AWSCredentials \<Rightarrow> string \<Rightarrow> string \<Rightarrow> exn + string" where
  "sign hmac_sha256 hmac_sha1 self bytes hash_type =
     (if hash_type = ''sha256'' then Inr (hmac_sha256 (secret_key self) bytes)
      else if hash_type = ''sha1'' then Inr (hmac_sha1 (secret_key self) bytes)
      else Inl (Exn RuntimeError
                  (''Unsupported hash type: '' @ quoted hash_type)))"

text \<open>
  The path that \<^verbatim>\<open>_load_shared_credentials\<close> reads, named for use in statements:
  the value of \<^verbatim>\<open>AWS_SHARED_CREDENTIALS_FILE\<close> when it is set, and the expansion of
  \<^verbatim>\<open>~/.aws/credentials\<close> otherwise.
\<close>

definition shared_credentials_path :: "world \<Rightarrow> string" where
  "shared_credentials_path w =
     (case environ w ENV_SHARED_CREDENTIALS_FILE of
        Some p \<Rightarrow> p
      | None \<Rightarrow> expanduser w ''~/.aws/credentials'')"

text \<open>
  The priority order for one key, written from the words of the specification and not
  from the constructor: a non-empty argument, else a non-empty value of the environment
  variable \<open>var\<close>, else option \<open>opt\<close> of section \<^verbatim>\<open>[default]\<close> of the shared
  credentials file.
\<close>

definition resolve_key :: "world \<Rightarrow> string option \<Rightarrow> string \<Rightarrow> string \<Rightarrow> exn + string" where
  "resolve_key w arg var opt =
     (case arg of
        Some (x # xs) \<Rightarrow> Inr (x # xs)
      | _ \<Rightarrow>
        (case environ w var of
           Some (y # ys) \<Rightarrow> Inr (y # ys)
         | _ \<Rightarrow>
           (case files w (shared_credentials_path w) of
              None \<Rightarrow> Inl (Exn CompatCredentialsNotFoundError
                             ''Could not find credentials in the environment or filesystem'')
            | Some (Malformed k msg) \<Rightarrow> Inl (parse_exn k msg)
            | Some (Wellformed c) \<Rightarrow> config_get c ''default'' opt)))"

text \<open>
  \<open>from_file w arg var\<close>: neither the argument nor the environment variable gives a
  value, so the key is looked for in the shared credentials file.
\<close>

definition from_file :: "world \<Rightarrow> string option \<Rightarrow> string \<Rightarrow> bool" where
  "from_file w arg var = (py_not arg \<and> py_not (environ w var))"

section \<open>The client layer\<close>

text \<open>
  \<^verbatim>\<open>txaws/client/base.py\<close>, \<^verbatim>\<open>txaws/client/ssl.py\<close> and
  \<^verbatim>\<open>txaws/service.py\<close> are not among the sources; only their tests in
  \<^verbatim>\<open>txaws/client/tests/test_client.py\<close> are. The definitions of this section are
  written from the specification, and the tests fix the values the specification leaves
  open.
\<close>

subsection \<open>Rendering of status codes\<close>

definition digit_char :: "nat \<Rightarrow> char" where
  "digit_char d = ''0123456789'' ! d"

fun str_nat :: "nat \<Rightarrow> string" where
  "str_nat n = (if n < 10 then [digit_char n] else str_nat (n div 10) @ [digit_char (n mod 10)])"

declare str_nat.simps [simp del]

subsection \<open>Error normalizer\<close>

text \<open>
  The failures handed to the normalizer, as the input column of the table in section 4.5
  of the specification has them. \<open>HttpStatus code message\<close> is the tests'
  \<^verbatim>\<open>TwistedWebError(code, message)\<close>; the other failures carry their message.
\<close>

datatype failure =
    HttpStatus nat string
  | ConnectionRefused string
  | IoTimeout string
  | TlsRejected string
  | OtherFailure string

text \<open>The error kinds of sections 4.5 and 7 of the specification.\<close>

datatype client_error =
    TrustStoreError
  | HttpStatusError nat string
  | ConnectionError failure
  | TimeoutError failure
  | TlsVerificationError string
  | TransportError failure

text \<open>
  \<^verbatim>\<open>str\<close> of a failure: the tests render \<^verbatim>\<open>TwistedWebError(500, "internal error")\<close>
  as \<^verbatim>\<open>500 internal error\<close> and \<^verbatim>\<open>Exception("timeout")\<close> as \<^verbatim>\<open>timeout\<close>.
\<close>

fun str_failure :: "failure \<Rightarrow> string" where
  "str_failure (HttpStatus code message) = str_nat code @ '' '' @ message"
| "str_failure (ConnectionRefused message) = message"
| "str_failure (IoTimeout message) = message"
| "str_failure (TlsRejected message) = message"
| "str_failure (OtherFailure message) = message"

fun str_error :: "client_error \<Rightarrow> string" where
  "str_error TrustStoreError = ''TrustStoreError''"
| "str_error (HttpStatusError code message) = str_nat code @ '' '' @ message"
| "str_error (ConnectionError cause) = str_failure cause"
| "str_error (TimeoutError cause) = str_failure cause"
| "str_error (TlsVerificationError reason) = reason"
| "str_error (TransportError cause) = str_failure cause"

text \<open>
  Modelled from the spec: \<^verbatim>\<open>error_wrapper\<close> of \<^verbatim>\<open>txaws/client/base.py\<close>, which is
  not among the sources. The rows of the table of section 4.5, in their order: status 204
  is a success, a status in 300 to 599 is an \<open>HttpStatusError\<close> with the code and the
  message of the failure, a refused connection a \<open>ConnectionError\<close>, a timeout a
  \<open>TimeoutError\<close>, a rejected TLS verification a \<open>TlsVerificationError\<close>, and any other
  failure a \<open>TransportError\<close> that keeps its cause. The value returned for 204 is the one
  that \<^verbatim>\<open>test_204_no_content\<close> asserts, the rendering of the failure; the second
  argument of the tests' calls has no part in the table and is left out.
\<close>

fun error_wrapper :: "failure \<Rightarrow> client_error + string" where
  "error_wrapper (HttpStatus code message) =
     (if code = 204 then Inr (str_failure (HttpStatus code message))
      else if 300 \<le> code \<and> code \<le> 599 then Inl (HttpStatusError code message)
      else Inl (TransportError (HttpStatus code message)))"
| "error_wrapper (ConnectionRefused message) = Inl (ConnectionError (ConnectionRefused message))"
| "error_wrapper (IoTimeout message) = Inl (TimeoutError (IoTimeout message))"
| "error_wrapper (TlsRejected reason) = Inl (TlsVerificationError reason)"
| "error_wrapper (OtherFailure message) = Inl (TransportError (OtherFailure message))"

subsection \<open>Trust store and connection factory\<close>

type_synonym certificate = string

datatype url_scheme = http | https

text \<open>
  The endpoint of section 3 of the specification; \<open>port\<close> is \<open>None\<close> when the endpoint
  gives no explicit port.
\<close>

record endpoint =
  scheme :: url_scheme
  host :: string
  port :: "nat option"
  verify_hostname :: bool

text \<open>
  The certificate bundles on disk: for a source that can be read, the certificates that
  parse in it.
\<close>

type_synonym bundles = "string \<rightharpoonup> certificate list"

text \<open>
  Modelled from the spec: the trust store of \<^verbatim>\<open>txaws/client/ssl.py\<close>, which is not
  among the sources (section 4.1). \<open>load\<close> fails when the source is unreadable or holds
  no parseable certificate.
\<close>

definition load :: "bundles \<Rightarrow> string \<Rightarrow> client_error + certificate set" where
  "load bs source =
     (case bs source of
        None \<Rightarrow> Inl TrustStoreError
      | Some certs \<Rightarrow> if certs = [] then Inl TrustStoreError else Inr (set certs))"

text \<open>
  Modelled from the spec: \<^verbatim>\<open>get\<close> of the trust store (section 4.1). The cache is the
  process-wide state, \<open>None\<close> until the first load; the tests set it directly
  (\<^verbatim>\<open>ssl._ca_certs = [...]\<close>) and reset it to \<open>None\<close>.
\<close>

definition trust_store_get ::
  "bundles \<Rightarrow> string \<Rightarrow> certificate set option \<Rightarrow>
   client_error + (certificate set \<times> certificate set option)" where
  "trust_store_get bs default_source cache =
     (case cache of
        Some certs \<Rightarrow> Inr (certs, cache)
      | None \<Rightarrow>
          (case load bs default_source of
             Inl e \<Rightarrow> Inl e
           | Inr certs \<Rightarrow> Inr (certs, Some certs)))"

text \<open>
  A connector: the host and port it connects to and, for the verifying one, the host name
  the verifier is bound to and the certificate set it trusts.
\<close>

datatype connector =
    PlainConnector string nat
  | VerifyingConnector string nat string "certificate set"
  | UnverifiedTlsConnector string nat

text \<open>
  Modelled from the spec: the port defaults of section 4.3, 80 for http and 443 for https.
\<close>

definition default_port :: "url_scheme \<Rightarrow> nat" where
  "default_port s = (case s of http \<Rightarrow> 80 | https \<Rightarrow> 443)"

text \<open>
  Modelled from the spec: the connection factory of \<^verbatim>\<open>txaws/client/base.py\<close>, which
  is not among the sources (section 4.3). With an empty certificate set the verifying
  path fails closed (the invariant of the trust store in section 3).
\<close>

definition connect ::
  "bundles \<Rightarrow> string \<Rightarrow> endpoint \<Rightarrow> certificate set option \<Rightarrow>
   client_error + (connector \<times> certificate set option)" where
  "connect bs default_source ep cache =
     (let p = (case port ep of Some n \<Rightarrow> n | None \<Rightarrow> default_port (scheme ep)) in
      case scheme ep of
        http \<Rightarrow> Inr (PlainConnector (host ep) p, cache)
      | https \<Rightarrow>
          if verify_hostname ep then
            (case trust_store_get bs default_source cache of
               Inl e \<Rightarrow> Inl e
             | Inr (certs, cache') \<Rightarrow>
                 if certs = {} then Inl TrustStoreError
                 else Inr (VerifyingConnector (host ep) p (host ep) certs, cache'))
          else Inr (UnverifiedTlsConnector (host ep) p, cache))"

subsection \<open>Query executor\<close>

type_synonym header_map = "(string \<times> string) list"

record ResponseMetadata =
  status_code :: nat
  headers :: header_map
  body :: string

text \<open>
  One finished request/response exchange as the transport reports it: the headers that
  were sent, the reason phrase of the status line and the response.
\<close>

record exchange =
  sent_headers :: header_map
  reason :: string
  received :: ResponseMetadata

text \<open>
  The network: what one request for an action over a connector ends in.
\<close>

type_synonym transport_fn = "connector \<Rightarrow> string \<Rightarrow> failure + exchange"

text \<open>
  The query of section 3 of the specification, with the metadata captured during
  execution: both are \<open>None\<close> until an exchange has completed.
\<close>

record 'c query =
  action :: string
  credentials :: 'c
  endpoint :: endpoint
  transport :: "transport_fn option"
  request_headers :: "header_map option"
  response :: "ResponseMetadata option"

text \<open>
  Modelled from the spec: the constructor of \<^verbatim>\<open>BaseQuery\<close> in
  \<^verbatim>\<open>txaws/client/base.py\<close>, which is not among the sources (sections 3 and 4.4): a
  fresh query has captured nothing.
\<close>

definition BaseQuery :: "string \<Rightarrow> 'c \<Rightarrow> endpoint \<Rightarrow> transport_fn option \<Rightarrow> 'c query" where
  "BaseQuery a creds ep override =
     \<lparr>action = a, credentials = creds, endpoint = ep, transport = override,
      request_headers = None, response = None\<rparr>"

text \<open>
  Modelled from the spec: \<^verbatim>\<open>get_request_headers\<close> of \<^verbatim>\<open>BaseQuery\<close>, not among
  the sources; \<open>None\<close> is the absence value that \<^verbatim>\<open>test_get_request_headers_no_client\<close>
  asserts.
\<close>

definition get_request_headers :: "'c query \<Rightarrow> header_map option" where
  "get_request_headers q = request_headers q"

text \<open>
  Modelled from the spec: \<^verbatim>\<open>get_response_headers\<close> of \<^verbatim>\<open>BaseQuery\<close>, not among
  the sources; \<open>None\<close> is the absence value that
  \<^verbatim>\<open>test_get_response_headers_no_client\<close> asserts.
\<close>

definition get_response_headers :: "'c query \<Rightarrow> header_map option" where
  "get_response_headers q = (case response q of None \<Rightarrow> None | Some r \<Rightarrow> Some (headers r))"

text \<open>
  Modelled from the spec: \<^verbatim>\<open>execute\<close> of section 4.4, the steps in their order. The
  connector is resolved, one request is issued over the query's transport (the override
  when there is one), the response is captured, and a status outside 200 to 299 or a
  failure of the transport goes through the error normalizer. A failure that the
  normalizer takes for a success completes with status 204 and no headers.
\<close>

definition execute ::
  "bundles \<Rightarrow> string \<Rightarrow> transport_fn \<Rightarrow> 'c query \<Rightarrow> certificate set option \<Rightarrow>
   (client_error + ResponseMetadata) \<times> 'c query \<times> certificate set option" where
  "execute bs default_source net q cache =
     (case connect bs default_source (endpoint q) cache of
        Inl e \<Rightarrow> (Inl e, q, cache)
      | Inr (conn, cache') \<Rightarrow>
          (case (case transport q of Some t \<Rightarrow> t | None \<Rightarrow> net) conn (action q) of
             Inl f \<Rightarrow>
               (case error_wrapper f of
                  Inl e \<Rightarrow> (Inl e, q, cache')
                | Inr payload \<Rightarrow>
                    (let r = \<lparr>status_code = 204, headers = [], body = payload\<rparr>
                     in (Inr r, q\<lparr>response := Some r\<rparr>, cache')))
           | Inr x \<Rightarrow>
               (let q' = q\<lparr>request_headers := Some (sent_headers x),
                            response := Some (received x)\<rparr>
                in if 200 \<le> status_code (received x) \<and> status_code (received x) < 300
                   then (Inr (received x), q', cache')
                   else (case error_wrapper (HttpStatus (status_code (received x)) (reason x)) of
                           Inl e \<Rightarrow> (Inl e, q', cache')
                         | Inr payload \<Rightarrow> (Inr (received x), q', cache')))))"

section \<open>Auxiliary notions\<close>

text \<open>
  The classes of the exceptions that the configuration parser raises, with the classes
  above them.
\<close>

definition parser_classes :: "exc_class set" where
  "parser_classes = {BaseException, Exception, ConfigParserError, NoSectionError, NoOptionError,
     InterpolationError, InterpolationMissingOptionError, InterpolationSyntaxError,
     InterpolationDepthError, ParsingError, MissingSectionHeaderError}"

text \<open>The exception that \<^verbatim>\<open>_load_shared_credentials\<close> raises at line 71.\<close>

definition cnf_exn :: exn where
  "cnf_exn = Exn CompatCredentialsNotFoundError
                ''Could not find credentials in the environment or filesystem''"

text \<open>
  A process whose environment sets the two variables under the names the specification
  gives them, with no credentials file.
\<close>

definition spec_named_world :: world where
  "spec_named_world =
     \<lparr>environ = map_of [(''ACCESS_KEY_ID'', ''AK''), (''SECRET_ACCESS_KEY'', ''SK'')],
      pw_dir = ''/home/user'',
      files = map_of []\<rparr>"

text \<open>A process with an empty environment and no credentials file.\<close>

definition bare_world :: world where
  "bare_world = \<lparr>environ = map_of [], pw_dir = ''/home/user'', files = map_of []\<rparr>"

text \<open>
  A process with an empty environment whose credentials file, at the default path, is
  readable and holds no section.
\<close>

definition no_section_world :: world where
  "no_section_world =
     \<lparr>environ = map_of [],
      pw_dir = ''/home/user'',
      files = map_of [(''/home/user/.aws/credentials'', Wellformed empty_config)]\<rparr>"

text \<open>
  A credentials file with the secret key only, and a process that names it in
  \<^verbatim>\<open>AWS_SHARED_CREDENTIALS_FILE\<close> and sets \<^verbatim>\<open>AWS_ACCESS_KEY_ID\<close>.
\<close>

definition secret_only_config :: config where
  "secret_only_config =
     \<lparr>defaults = map_of [],
      sections = map_of [(''default'', map_of [(''aws_secret_access_key'', Text ''SK'')])]\<rparr>"

definition mixed_world :: world where
  "mixed_world =
     \<lparr>environ = map_of [(''AWS_ACCESS_KEY_ID'', ''AK''),
                         (''AWS_SHARED_CREDENTIALS_FILE'', ''/etc/aws'')],
      pw_dir = ''/home/user'',
      files = map_of [(''/etc/aws'', Wellformed secret_only_config)]\<rparr>"

text \<open>
  \<open>lacks_key c opt\<close>: the parsed file has no \<^verbatim>\<open>[default]\<close> section, or the
  section has no option \<open>opt\<close> and the defaults have none either. \<open>missing_class c\<close>
  is the class of the parser's exception in the two cases.
\<close>

definition lacks_key :: "config \<Rightarrow> string \<Rightarrow> bool" where
  "lacks_key c opt =
     (case sections c ''default'' of
        None \<Rightarrow> True
      | Some d \<Rightarrow> d opt = None \<and> defaults c opt = None)"

definition missing_class :: "config \<Rightarrow> exc_class" where
  "missing_class c = (if sections c ''default'' = None then NoSectionError else NoOptionError)"

text \<open>
  A process with an empty environment whose credentials file, at the default path, has an
  empty \<^verbatim>\<open>[default]\<close> section.
\<close>

definition empty_section_config :: config where
  "empty_section_config = \<lparr>defaults = map_of [], sections = map_of [(''default'', map_of [])]\<rparr>"

definition no_option_world :: world where
  "no_option_world =
     \<lparr>environ = map_of [],
      pw_dir = ''/home/user'',
      files = map_of [(''/home/user/.aws/credentials'', Wellformed empty_section_config)]\<rparr>"

text \<open>
  The endpoint and the certificate bundle of \<^verbatim>\<open>test_ssl_hostname_verification\<close>: host
  \<^verbatim>\<open>example.com\<close> over https with no explicit port, hostname verification switched on,
  and a bundle with one certificate at the default source.
\<close>

definition example_endpoint :: endpoint where
  "example_endpoint =
     \<lparr>scheme = https, host = ''example.com'', port = None, verify_hostname = True\<rparr>"

definition example_bundles :: bundles where
  "example_bundles = map_of [(''/etc/ssl/certs'', [''certificate''])]"

text \<open>
  The exchange of \<^verbatim>\<open>test_get_response_headers_with_client\<close>, cut to two response
  headers: a plain endpoint and a network that answers every request with status 200.
\<close>

definition file_endpoint :: endpoint where
  "file_endpoint =
     \<lparr>scheme = http, host = ''127.0.0.1'', port = Some 8080, verify_hostname = False\<rparr>"

definition file_exchange :: exchange where
  "file_exchange =
     \<lparr>sent_headers = [],
      reason = ''OK'',
      received = \<lparr>status_code = 200,
                  headers = [(''content-length'', ''10''), (''content-type'', ''text/html'')],
                  body = ''0123456789''\<rparr>\<rparr>"

definition file_net :: transport_fn where
  "file_net conn a = Inr file_exchange"

section \<open>Properties\<close>

subsection \<open>Auxiliary lemmas\<close>

lemma merge_empty_config: "merge_config empty_config (c::config) = c"
  by (simp add: merge_config_def empty_config_def fun_eq_iff split: option.splits)

lemma load_shared_credentials_eq:
  "load_shared_credentials w =
     (case files w (shared_credentials_path w) of
        None \<Rightarrow> Inl (Exn CompatCredentialsNotFoundError
                       ''Could not find credentials in the environment or filesystem'')
      | Some (Malformed k msg) \<Rightarrow> Inl (parse_exn k msg)
      | Some (Wellformed c) \<Rightarrow> Inr c)"
  by (simp add: load_shared_credentials_def shared_credentials_path_def merge_empty_config
      split: option.splits disk_file.splits)

lemma resolve_key_eq:
  "resolve_key w arg var opt =
     (if py_not arg then
        (if py_not (environ w var) then
           (case load_shared_credentials w of
              Inl e \<Rightarrow> Inl e
            | Inr config \<Rightarrow> config_get config ''default'' opt)
         else Inr (the (environ w var)))
      else Inr (the arg))"
  by (simp add: resolve_key_def load_shared_credentials_eq py_not_def
      split: option.split list.split disk_file.split)

lemma init_resolve:
  "AWSCredentials_init w a s =
     (case resolve_key w a ENV_ACCESS_KEY ''aws_access_key_id'' of
        Inl e \<Rightarrow> Inl e
      | Inr ak \<Rightarrow>
          (case resolve_key w s ENV_SECRET_KEY ''aws_secret_access_key'' of
             Inl e \<Rightarrow> Inl e
           | Inr sk \<Rightarrow> Inr \<lparr>access_key = ak, secret_key = sk\<rparr>))"
  unfolding AWSCredentials_init_def resolve_key_eq Let_def ..

lemma parser_classes_closed:
  "issubclass B c d \<Longrightarrow> c \<in> parser_classes \<Longrightarrow> d \<in> parser_classes"
proof (induction rule: issubclass.induct)
  case (same c)
  then show ?case .
next
  case (derived d c e)
  from derived.hyps(1) derived.prems have "d \<in> parser_classes"
    by (cases c) (auto simp: parser_classes_def)
  then show ?case by (rule derived.IH)
qed

lemma parser_class_not_cnf:
  "c \<in> parser_classes \<Longrightarrow> \<not> issubclass B c CredentialsNotFoundError"
  using parser_classes_closed [of B c CredentialsNotFoundError]
  by (auto simp: parser_classes_def)

lemma compat_is_cnf: "issubclass B CompatCredentialsNotFoundError CredentialsNotFoundError"
  by (rule issubclass.derived [where d = CredentialsNotFoundError]) (simp_all add: issubclass.same)

lemma compat_is_value_error: "issubclass B CompatCredentialsNotFoundError ValueError"
  by (rule issubclass.derived [where d = ValueError]) (simp_all add: issubclass.same)

lemma config_get_class:
  "config_get c sec opt = Inl e \<Longrightarrow> exn_class e \<in> parser_classes"
  by (auto simp: config_get_def parser_classes_def interpolation_exn_def
      split: option.splits if_splits option_value.splits interpolation_failure.splits)

lemma parse_exn_class: "exn_class (parse_exn k msg) \<in> parser_classes"
  by (cases k) (simp_all add: parse_exn_def parser_classes_def)

lemma resolve_key_error:
  "resolve_key w arg var opt = Inl e \<Longrightarrow>
     (e = cnf_exn \<and> from_file w arg var \<and> files w (shared_credentials_path w) = None)
     \<or> (exn_class e \<in> parser_classes \<and> from_file w arg var
         \<and> files w (shared_credentials_path w) \<noteq> None)"
  by (auto simp: resolve_key_def cnf_exn_def from_file_def py_not_def parse_exn_class
      config_get_class
      split: option.splits list.splits disk_file.splits)

lemma resolve_key_unreadable:
  "from_file w arg var \<Longrightarrow> files w (shared_credentials_path w) = None \<Longrightarrow>
   resolve_key w arg var opt = Inl cnf_exn"
  by (auto simp: resolve_key_def cnf_exn_def from_file_def py_not_def
      split: option.splits list.splits)

lemma resolve_key_not_from_file:
  "\<not> from_file w arg var \<Longrightarrow> \<exists>v. resolve_key w arg var opt = Inr v"
  by (auto simp: resolve_key_def from_file_def py_not_def
      split: option.splits list.splits)

lemma path_bare: "shared_credentials_path bare_world = ''/home/user/.aws/credentials''"
  by (simp add: shared_credentials_path_def bare_world_def ENV_SHARED_CREDENTIALS_FILE_def
      expanduser_def rstrip_slash_def)

lemma path_spec_named: "shared_credentials_path spec_named_world = ''/home/user/.aws/credentials''"
  by (simp add: shared_credentials_path_def spec_named_world_def ENV_SHARED_CREDENTIALS_FILE_def
      expanduser_def rstrip_slash_def)

lemma path_no_section: "shared_credentials_path no_section_world = ''/home/user/.aws/credentials''"
  by (simp add: shared_credentials_path_def no_section_world_def ENV_SHARED_CREDENTIALS_FILE_def
      expanduser_def rstrip_slash_def)

lemma path_mixed: "shared_credentials_path mixed_world = ''/etc/aws''"
  by (simp add: shared_credentials_path_def mixed_world_def ENV_SHARED_CREDENTIALS_FILE_def)

subsection \<open>Credential resolution\<close>

text \<open>
  Claim C1, as stated, fails: the environment variables are not the ones the
  specification names. With \<^verbatim>\<open>ACCESS_KEY_ID\<close> and \<^verbatim>\<open>SECRET_ACCESS_KEY\<close> set, no
  arguments and no credentials file, the constructor does not take the values of the
  environment but raises.
\<close>

theorem spec_named_variables_not_consulted:
  "environ spec_named_world ''ACCESS_KEY_ID'' = Some ''AK'' \<and>
   environ spec_named_world ''SECRET_ACCESS_KEY'' = Some ''SK'' \<and>
   AWSCredentials_init spec_named_world (Some '''') (Some '''') =
     Inl (Exn CompatCredentialsNotFoundError
            ''Could not find credentials in the environment or filesystem'')"
  by (simp add: init_resolve resolve_key_def path_spec_named ENV_ACCESS_KEY_def)
     (simp add: spec_named_world_def)

text \<open>
  Claim C1, amended: every construction resolves each key in the priority order
  \<open>resolve_key\<close>: a non-empty argument is used as it is; else the non-empty value of
  \<^verbatim>\<open>AWS_ACCESS_KEY_ID\<close> (for the secret key \<^verbatim>\<open>AWS_SECRET_ACCESS_KEY\<close>); else the
  option \<^verbatim>\<open>aws_access_key_id\<close> (\<^verbatim>\<open>aws_secret_access_key\<close>) of section
  \<^verbatim>\<open>[default]\<close> of the shared credentials file, whose path is the value of
  \<^verbatim>\<open>AWS_SHARED_CREDENTIALS_FILE\<close> and \<^verbatim>\<open>~/.aws/credentials\<close> by default. The
  access key is resolved first and its failure ends the construction.
\<close>

theorem credential_priority_order:
  "AWSCredentials_init w a s =
     (case resolve_key w a ''AWS_ACCESS_KEY_ID'' ''aws_access_key_id'' of
        Inl e \<Rightarrow> Inl e
      | Inr ak \<Rightarrow>
          (case resolve_key w s ''AWS_SECRET_ACCESS_KEY'' ''aws_secret_access_key'' of
             Inl e \<Rightarrow> Inl e
           | Inr sk \<Rightarrow> Inr \<lparr>access_key = ak, secret_key = sk\<rparr>))
   \<and> shared_credentials_path w =
       (case environ w ''AWS_SHARED_CREDENTIALS_FILE'' of
          Some p \<Rightarrow> p
        | None \<Rightarrow> expanduser w ''~/.aws/credentials'')"
  unfolding init_resolve ENV_ACCESS_KEY_def ENV_SECRET_KEY_def shared_credentials_path_def
    ENV_SHARED_CREDENTIALS_FILE_def
  by simp

subsection \<open>When construction raises CredentialsNotFoundError\<close>

text \<open>
  Claim C4, as stated, fails in the direction from left to right of "none of the sources
  yields a value": with the access key given, no secret key argument, no environment
  variable and a readable credentials file without a \<^verbatim>\<open>[default]\<close> section, no
  source yields the secret key, and construction raises \<^verbatim>\<open>NoSectionError\<close>, which a
  handler for \<^verbatim>\<open>CredentialsNotFoundError\<close> does not catch.
\<close>

theorem missing_section_not_credentials_not_found:
  "py_not (Some '''') \<and>
   environ no_section_world ENV_SECRET_KEY = None \<and>
   files no_section_world (shared_credentials_path no_section_world) = Some (Wellformed empty_config) \<and>
   config_get empty_config ''default'' ''aws_secret_access_key''
     = Inl (Exn NoSectionError (''No section: '' @ quoted ''default'')) \<and>
   AWSCredentials_init no_section_world (Some ''AK'') (Some '''')
     = Inl (Exn NoSectionError (''No section: '' @ quoted ''default'')) \<and>
   \<not> caught_by [Exception] CredentialsNotFoundError (Exn NoSectionError (''No section: '' @ quoted ''default''))"
proof -
  have get: "config_get empty_config ''default'' ''aws_secret_access_key''
     = Inl (Exn NoSectionError (''No section: '' @ quoted ''default''))"
    by (simp add: config_get_def empty_config_def DEFAULTSECT_def)
  have fl: "files no_section_world ''/home/user/.aws/credentials'' = Some (Wellformed empty_config)"
    by (simp add: no_section_world_def)
  have env: "environ no_section_world ENV_SECRET_KEY = None"
    by (simp add: no_section_world_def)
  have init: "AWSCredentials_init no_section_world (Some ''AK'') (Some '''')
     = Inl (Exn NoSectionError (''No section: '' @ quoted ''default''))"
    by (simp add: init_resolve resolve_key_def path_no_section fl env get)
  have "\<not> issubclass [Exception] NoSectionError CredentialsNotFoundError"
    by (rule parser_class_not_cnf) (simp add: parser_classes_def)
  then have nc: "\<not> caught_by [Exception] CredentialsNotFoundError
                     (Exn NoSectionError (''No section: '' @ quoted ''default''))"
    by (simp add: caught_by_def)
  show ?thesis
    using get fl env init nc by (simp add: path_no_section py_not_def)
qed

lemma init_cnf_exn:
  "AWSCredentials_init w a s = Inl e \<Longrightarrow> caught_by B CredentialsNotFoundError e \<Longrightarrow>
   e = cnf_exn \<and> (from_file w a ENV_ACCESS_KEY \<or> from_file w s ENV_SECRET_KEY)
   \<and> files w (shared_credentials_path w) = None"
  using resolve_key_error [of w a ENV_ACCESS_KEY "''aws_access_key_id''" e]
        resolve_key_error [of w s ENV_SECRET_KEY "''aws_secret_access_key''" e]
        parser_class_not_cnf [of "exn_class e" B]
  by (auto simp: init_resolve caught_by_def split: sum.splits)

lemma init_unreadable:
  assumes "from_file w a ENV_ACCESS_KEY \<or> from_file w s ENV_SECRET_KEY"
    and "files w (shared_credentials_path w) = None"
  shows "AWSCredentials_init w a s = Inl cnf_exn"
proof (cases "from_file w a ENV_ACCESS_KEY")
  case True
  then show ?thesis
    by (simp add: init_resolve resolve_key_unreadable assms(2))
next
  case False
  then obtain ak where "resolve_key w a ENV_ACCESS_KEY ''aws_access_key_id'' = Inr ak"
    using resolve_key_not_from_file by blast
  moreover from False assms(1) have "from_file w s ENV_SECRET_KEY" by simp
  ultimately show ?thesis
    by (simp add: init_resolve resolve_key_unreadable assms(2))
qed

lemma cnf_exn_caught: "caught_by B CredentialsNotFoundError cnf_exn"
  by (simp add: caught_by_def cnf_exn_def compat_is_cnf)

lemma cnf_exn_caught_value: "caught_by B ValueError cnf_exn"
  by (simp add: caught_by_def cnf_exn_def compat_is_value_error)

text \<open>
  Claim C4, amended: construction raises an exception that is a
  \<^verbatim>\<open>CredentialsNotFoundError\<close> if and only if, for the access key or for the secret
  key, neither the argument nor the environment variable gives a value, and the shared
  credentials file cannot be read.
\<close>

theorem credentials_not_found_iff:
  "(\<exists>e. AWSCredentials_init w a s = Inl e \<and> caught_by B CredentialsNotFoundError e)
   \<longleftrightarrow> ((from_file w a ''AWS_ACCESS_KEY_ID'' \<or> from_file w s ''AWS_SECRET_ACCESS_KEY'')
        \<and> files w (shared_credentials_path w) = None)"
  using init_cnf_exn [of w a s _ B] init_unreadable [of w a s] cnf_exn_caught [of B]
  unfolding ENV_ACCESS_KEY_def ENV_SECRET_KEY_def
  by blast

theorem credentials_not_found_iff_witness:
  "\<exists>e. AWSCredentials_init bare_world None None = Inl e
       \<and> caught_by [Exception] CredentialsNotFoundError e"
  using credentials_not_found_iff [of bare_world None None "[Exception]"]
  by (simp add: from_file_def py_not_def path_bare) (simp add: bare_world_def)

subsection \<open>Signing\<close>

lemma runtime_error_caught: "caught_by B RuntimeError (Exn RuntimeError msg)"
  by (simp add: caught_by_def issubclass.same)

text \<open>
  Claim C5: for every payload, \<^verbatim>\<open>sign\<close> returns the HMAC-SHA256 of the payload under
  the secret key for hash type \<^verbatim>\<open>sha256\<close> and the HMAC-SHA1 for \<^verbatim>\<open>sha1\<close>; for
  every other hash type it returns no signature and raises a \<^verbatim>\<open>RuntimeError\<close>.
\<close>

theorem sign_by_hash_type:
  "sign hmac_sha256 hmac_sha1 c payload ''sha256'' = Inr (hmac_sha256 (secret_key c) payload)
   \<and> sign hmac_sha256 hmac_sha1 c payload ''sha1'' = Inr (hmac_sha1 (secret_key c) payload)
   \<and> (h \<noteq> ''sha256'' \<and> h \<noteq> ''sha1'' \<longrightarrow>
        sign hmac_sha256 hmac_sha1 c payload h
          = Inl (Exn RuntimeError (''Unsupported hash type: '' @ quoted h))
        \<and> caught_by B RuntimeError (Exn RuntimeError (''Unsupported hash type: '' @ quoted h)))"
  by (simp add: sign_def runtime_error_caught)

theorem sign_by_hash_type_witness:
  "sign (\<lambda>k m. ''256'' @ k @ m) (\<lambda>k m. ''1'' @ k @ m)
        \<lparr>access_key = ''AK'', secret_key = ''SK''\<rparr> ''payload'' ''md5''
     = Inl (Exn RuntimeError (''Unsupported hash type: '' @ quoted ''md5''))
   \<and> sign (\<lambda>k m. ''256'' @ k @ m) (\<lambda>k m. ''1'' @ k @ m)
        \<lparr>access_key = ''AK'', secret_key = ''SK''\<rparr> ''payload'' ''sha256''
     = Inr ''256SKpayload''
   \<and> sign (\<lambda>k m. ''256'' @ k @ m) (\<lambda>k m. ''1'' @ k @ m)
        \<lparr>access_key = ''AK'', secret_key = ''SK''\<rparr> ''payload'' ''sha1''
     = Inr ''1SKpayload''"
  using sign_by_hash_type [of "\<lambda>k m. ''256'' @ k @ m" "\<lambda>k m. ''1'' @ k @ m"
      "\<lparr>access_key = ''AK'', secret_key = ''SK''\<rparr>" "''payload''" "''md5''" "[Exception]"]
  by simp

subsection \<open>The compatibility subclass\<close>

text \<open>
  Claim C8: whenever construction raises an exception that a handler for
  \<^verbatim>\<open>CredentialsNotFoundError\<close> catches, its class is the compatibility subclass
  \<^verbatim>\<open>_CompatCredentialsNotFoundError\<close> and a handler for \<^verbatim>\<open>ValueError\<close> catches it
  too; and when the credentials are missing (a key has neither argument nor environment
  variable and the file cannot be read) construction raises such an exception.
\<close>

theorem missing_credentials_caught_as_value_error:
  "(AWSCredentials_init w a s = Inl e \<and> caught_by B CredentialsNotFoundError e \<longrightarrow>
      exn_class e = CompatCredentialsNotFoundError \<and> caught_by B ValueError e)
   \<and> ((from_file w a ENV_ACCESS_KEY \<or> from_file w s ENV_SECRET_KEY)
        \<and> files w (shared_credentials_path w) = None \<longrightarrow>
      (\<exists>x. AWSCredentials_init w a s = Inl x
           \<and> exn_class x = CompatCredentialsNotFoundError
           \<and> caught_by B CredentialsNotFoundError x \<and> caught_by B ValueError x))"
proof (intro conjI impI)
  assume h: "AWSCredentials_init w a s = Inl e \<and> caught_by B CredentialsNotFoundError e"
  then have "e = cnf_exn" using init_cnf_exn by blast
  then show "exn_class e = CompatCredentialsNotFoundError" by (simp add: cnf_exn_def)
  from \<open>e = cnf_exn\<close> show "caught_by B ValueError e" by (simp add: cnf_exn_caught_value)
next
  assume "(from_file w a ENV_ACCESS_KEY \<or> from_file w s ENV_SECRET_KEY)
        \<and> files w (shared_credentials_path w) = None"
  then have "AWSCredentials_init w a s = Inl cnf_exn"
    using init_unreadable by blast
  then show "\<exists>x. AWSCredentials_init w a s = Inl x
           \<and> exn_class x = CompatCredentialsNotFoundError
           \<and> caught_by B CredentialsNotFoundError x \<and> caught_by B ValueError x"
    by (simp add: cnf_exn_caught cnf_exn_caught_value) (simp add: cnf_exn_def)
qed

lemma init_bare: "AWSCredentials_init bare_world None None = Inl cnf_exn"
  by (rule init_unreadable) (simp_all add: from_file_def py_not_def path_bare, simp_all add: bare_world_def)

theorem missing_credentials_caught_as_value_error_witness:
  "AWSCredentials_init bare_world None None = Inl cnf_exn
   \<and> caught_by [Exception] CredentialsNotFoundError cnf_exn
   \<and> exn_class cnf_exn = CompatCredentialsNotFoundError
   \<and> caught_by [Exception] ValueError cnf_exn"
  using missing_credentials_caught_as_value_error
          [of bare_world None None cnf_exn "[Exception]"]
        init_bare cnf_exn_caught [of "[Exception]"]
  by simp

subsection \<open>Empty arguments and independent keys\<close>

lemma resolve_key_empty_arg: "resolve_key w (Some '''') var opt = resolve_key w None var opt"
  by (simp add: resolve_key_def)

lemma init_success:
  "AWSCredentials_init w a s = Inr c \<Longrightarrow>
   resolve_key w a ENV_ACCESS_KEY ''aws_access_key_id'' = Inr (access_key c)
   \<and> resolve_key w s ENV_SECRET_KEY ''aws_secret_access_key'' = Inr (secret_key c)"
  by (auto simp: init_resolve split: sum.splits)

lemma resolve_key_env:
  "py_not arg \<Longrightarrow> environ w var = Some v \<Longrightarrow> v \<noteq> [] \<Longrightarrow> resolve_key w arg var opt = Inr v"
  by (auto simp: resolve_key_def py_not_def split: option.splits list.splits)

lemma resolve_key_file:
  "from_file w arg var \<Longrightarrow> files w (shared_credentials_path w) = Some (Wellformed cfg) \<Longrightarrow>
   resolve_key w arg var opt = config_get cfg ''default'' opt"
  by (auto simp: resolve_key_def from_file_def py_not_def split: option.splits list.splits)

text \<open>
  Claim C9: an empty string passed for a key is treated as \<^verbatim>\<open>None\<close> is; the key that
  a construction yields does not depend on the argument given for the other key; and with
  no arguments, a non-empty \<^verbatim>\<open>AWS_ACCESS_KEY_ID\<close>, no \<^verbatim>\<open>AWS_SECRET_ACCESS_KEY\<close>
  and a credentials file that holds the secret key, the access key of the object is the one
  of the environment and its secret key the one of the file.
\<close>

theorem empty_argument_and_independent_keys:
  "AWSCredentials_init w (Some '''') s = AWSCredentials_init w None s
   \<and> AWSCredentials_init w a (Some '''') = AWSCredentials_init w a None
   \<and> (AWSCredentials_init w a s = Inr c \<and> AWSCredentials_init w a s' = Inr c' \<longrightarrow>
        access_key c = access_key c')
   \<and> (AWSCredentials_init w a s = Inr c \<and> AWSCredentials_init w a' s = Inr c'' \<longrightarrow>
        secret_key c = secret_key c'')
   \<and> (py_not a \<and> py_not s \<and> environ w ENV_ACCESS_KEY = Some ak \<and> ak \<noteq> []
        \<and> py_not (environ w ENV_SECRET_KEY)
        \<and> files w (shared_credentials_path w) = Some (Wellformed cfg)
        \<and> config_get cfg ''default'' ''aws_secret_access_key'' = Inr sk \<longrightarrow>
      AWSCredentials_init w a s = Inr \<lparr>access_key = ak, secret_key = sk\<rparr>)"
proof (intro conjI impI)
  show "AWSCredentials_init w (Some '''') s = AWSCredentials_init w None s"
    by (simp add: init_resolve resolve_key_empty_arg)
  show "AWSCredentials_init w a (Some '''') = AWSCredentials_init w a None"
    unfolding init_resolve resolve_key_empty_arg ..
next
  assume "AWSCredentials_init w a s = Inr c \<and> AWSCredentials_init w a s' = Inr c'"
  then show "access_key c = access_key c'"
    using init_success [of w a s c] init_success [of w a s' c'] by simp
next
  assume "AWSCredentials_init w a s = Inr c \<and> AWSCredentials_init w a' s = Inr c''"
  then show "secret_key c = secret_key c''"
    using init_success [of w a s c] init_success [of w a' s c''] by simp
next
  assume h: "py_not a \<and> py_not s \<and> environ w ENV_ACCESS_KEY = Some ak \<and> ak \<noteq> []
        \<and> py_not (environ w ENV_SECRET_KEY)
        \<and> files w (shared_credentials_path w) = Some (Wellformed cfg)
        \<and> config_get cfg ''default'' ''aws_secret_access_key'' = Inr sk"
  then have 1: "resolve_key w a ENV_ACCESS_KEY ''aws_access_key_id'' = Inr ak"
    by (simp add: resolve_key_env)
  from h have "from_file w s ENV_SECRET_KEY" by (simp add: from_file_def)
  with h have 2: "resolve_key w s ENV_SECRET_KEY ''aws_secret_access_key'' = Inr sk"
    by (simp add: resolve_key_file)
  from 1 2 show "AWSCredentials_init w a s = Inr \<lparr>access_key = ak, secret_key = sk\<rparr>"
    by (simp add: init_resolve)
qed

lemma get_secret_only:
  "config_get secret_only_config ''default'' ''aws_secret_access_key'' = Inr ''SK''"
  by (simp add: config_get_def secret_only_config_def)

lemma mixed_world_facts:
  "environ mixed_world ENV_ACCESS_KEY = Some ''AK''"
  "environ mixed_world ENV_SECRET_KEY = None"
  "files mixed_world ''/etc/aws'' = Some (Wellformed secret_only_config)"
  by (simp_all add: mixed_world_def ENV_ACCESS_KEY_def ENV_SECRET_KEY_def)

theorem empty_argument_and_independent_keys_witness:
  "AWSCredentials_init mixed_world (Some '''') (Some '''')
     = Inr \<lparr>access_key = ''AK'', secret_key = ''SK''\<rparr>
   \<and> AWSCredentials_init mixed_world None None
     = Inr \<lparr>access_key = ''AK'', secret_key = ''SK''\<rparr>
   \<and> environ mixed_world ENV_ACCESS_KEY = Some ''AK''
   \<and> environ mixed_world ENV_SECRET_KEY = None
   \<and> files mixed_world (shared_credentials_path mixed_world) = Some (Wellformed secret_only_config)
   \<and> config_get secret_only_config ''default'' ''aws_secret_access_key'' = Inr ''SK''"
  using empty_argument_and_independent_keys
          [of mixed_world "Some ''''" "Some ''''"
              "\<lparr>access_key = ''AK'', secret_key = ''SK''\<rparr>" "Some ''''"
              "\<lparr>access_key = ''AK'', secret_key = ''SK''\<rparr>" "Some ''''"
              "\<lparr>access_key = ''AK'', secret_key = ''SK''\<rparr>" "''AK''" secret_only_config "''SK''"]
        empty_argument_and_independent_keys
          [of mixed_world None None
              "\<lparr>access_key = ''AK'', secret_key = ''SK''\<rparr>" None
              "\<lparr>access_key = ''AK'', secret_key = ''SK''\<rparr>" None
              "\<lparr>access_key = ''AK'', secret_key = ''SK''\<rparr>" "''AK''" secret_only_config "''SK''"]
        get_secret_only mixed_world_facts
  by (simp add: py_not_def path_mixed)

subsection \<open>A readable file that lacks the key\<close>

lemma config_get_lacks:
  "lacks_key cfg opt \<Longrightarrow> \<exists>msg. config_get cfg ''default'' opt = Inl (Exn (missing_class cfg) msg)"
  by (auto simp: lacks_key_def missing_class_def config_get_def DEFAULTSECT_def map_add_def
      split: option.splits)

lemma missing_class_not_cnf: "\<not> caught_by B CredentialsNotFoundError (Exn (missing_class cfg) msg)"
  by (simp add: caught_by_def missing_class_def parser_class_not_cnf parser_classes_def)

lemma init_readable_not_cnf:
  "files w (shared_credentials_path w) \<noteq> None \<Longrightarrow> AWSCredentials_init w a s = Inl e \<Longrightarrow>
   \<not> caught_by B CredentialsNotFoundError e"
  by (auto dest: init_cnf_exn)

text \<open>
  Claim C10: when the shared credentials file can be read, construction raises no
  \<^verbatim>\<open>CredentialsNotFoundError\<close>; and when the file parses, a key is looked for in it
  and it has no \<^verbatim>\<open>[default]\<close> section or not the key, construction raises the
  parser's \<^verbatim>\<open>NoSectionError\<close> or \<^verbatim>\<open>NoOptionError\<close>, for the access key, and for
  the secret key once the access key is resolved.
\<close>

theorem parser_error_when_file_lacks_key:
  "(files w (shared_credentials_path w) \<noteq> None \<and> AWSCredentials_init w a s = Inl e \<longrightarrow>
      \<not> caught_by B CredentialsNotFoundError e)
   \<and> (files w (shared_credentials_path w) = Some (Wellformed cfg)
        \<and> from_file w a ENV_ACCESS_KEY \<and> lacks_key cfg ''aws_access_key_id'' \<longrightarrow>
      (\<exists>msg. AWSCredentials_init w a s = Inl (Exn (missing_class cfg) msg)
             \<and> \<not> caught_by B CredentialsNotFoundError (Exn (missing_class cfg) msg)))
   \<and> (files w (shared_credentials_path w) = Some (Wellformed cfg)
        \<and> resolve_key w a' ENV_ACCESS_KEY ''aws_access_key_id'' = Inr ak
        \<and> from_file w s' ENV_SECRET_KEY \<and> lacks_key cfg ''aws_secret_access_key'' \<longrightarrow>
      (\<exists>msg. AWSCredentials_init w a' s' = Inl (Exn (missing_class cfg) msg)
             \<and> \<not> caught_by B CredentialsNotFoundError (Exn (missing_class cfg) msg)))
   \<and> missing_class cfg = (if sections cfg ''default'' = None then NoSectionError else NoOptionError)"
proof (intro conjI impI)
  assume "files w (shared_credentials_path w) \<noteq> None \<and> AWSCredentials_init w a s = Inl e"
  then show "\<not> caught_by B CredentialsNotFoundError e"
    using init_readable_not_cnf by blast
next
  assume h: "files w (shared_credentials_path w) = Some (Wellformed cfg)
        \<and> from_file w a ENV_ACCESS_KEY \<and> lacks_key cfg ''aws_access_key_id''"
  then obtain msg where
    "config_get cfg ''default'' ''aws_access_key_id'' = Inl (Exn (missing_class cfg) msg)"
    using config_get_lacks by blast
  with h have "AWSCredentials_init w a s = Inl (Exn (missing_class cfg) msg)"
    by (simp add: init_resolve resolve_key_file)
  then show "\<exists>msg. AWSCredentials_init w a s = Inl (Exn (missing_class cfg) msg)
             \<and> \<not> caught_by B CredentialsNotFoundError (Exn (missing_class cfg) msg)"
    using missing_class_not_cnf by blast
next
  assume h: "files w (shared_credentials_path w) = Some (Wellformed cfg)
        \<and> resolve_key w a' ENV_ACCESS_KEY ''aws_access_key_id'' = Inr ak
        \<and> from_file w s' ENV_SECRET_KEY \<and> lacks_key cfg ''aws_secret_access_key''"
  then obtain msg where
    "config_get cfg ''default'' ''aws_secret_access_key'' = Inl (Exn (missing_class cfg) msg)"
    using config_get_lacks by blast
  with h have "AWSCredentials_init w a' s' = Inl (Exn (missing_class cfg) msg)"
    by (simp add: init_resolve resolve_key_file)
  then show "\<exists>msg. AWSCredentials_init w a' s' = Inl (Exn (missing_class cfg) msg)
             \<and> \<not> caught_by B CredentialsNotFoundError (Exn (missing_class cfg) msg)"
    using missing_class_not_cnf by blast
next
  show "missing_class cfg = (if sections cfg ''default'' = None then NoSectionError else NoOptionError)"
    by (simp add: missing_class_def)
qed

lemma path_no_option: "shared_credentials_path no_option_world = ''/home/user/.aws/credentials''"
  by (simp add: shared_credentials_path_def no_option_world_def ENV_SHARED_CREDENTIALS_FILE_def
      expanduser_def rstrip_slash_def)

lemma no_section_world_facts:
  "files no_section_world ''/home/user/.aws/credentials'' = Some (Wellformed empty_config)"
  "from_file no_section_world None ENV_ACCESS_KEY"
  "from_file no_section_world None ENV_SECRET_KEY"
  "lacks_key empty_config ''aws_access_key_id''"
  "lacks_key empty_config ''aws_secret_access_key''"
  "resolve_key no_section_world (Some ''AK'') ENV_ACCESS_KEY ''aws_access_key_id'' = Inr ''AK''"
  "missing_class empty_config = NoSectionError"
  by (simp_all add: no_section_world_def from_file_def py_not_def lacks_key_def empty_config_def
      resolve_key_def missing_class_def)

lemma no_option_world_facts:
  "files no_option_world ''/home/user/.aws/credentials'' = Some (Wellformed empty_section_config)"
  "from_file no_option_world None ENV_ACCESS_KEY"
  "from_file no_option_world None ENV_SECRET_KEY"
  "lacks_key empty_section_config ''aws_access_key_id''"
  "lacks_key empty_section_config ''aws_secret_access_key''"
  "resolve_key no_option_world (Some ''AK'') ENV_ACCESS_KEY ''aws_access_key_id'' = Inr ''AK''"
  "missing_class empty_section_config = NoOptionError"
  by (simp_all add: no_option_world_def from_file_def py_not_def lacks_key_def
      empty_section_config_def resolve_key_def missing_class_def)

theorem parser_error_when_file_lacks_key_witness:
  "(\<exists>msg. AWSCredentials_init no_section_world None None = Inl (Exn NoSectionError msg))
   \<and> (\<exists>msg. AWSCredentials_init no_section_world (Some ''AK'') None = Inl (Exn NoSectionError msg))
   \<and> (\<exists>msg. AWSCredentials_init no_option_world None None = Inl (Exn NoOptionError msg))
   \<and> (\<exists>msg. AWSCredentials_init no_option_world (Some ''AK'') None = Inl (Exn NoOptionError msg))"
  using parser_error_when_file_lacks_key
          [of no_section_world None None cnf_exn "[Exception]" empty_config "Some ''AK''" "''AK''" None]
        parser_error_when_file_lacks_key
          [of no_option_world None None cnf_exn "[Exception]" empty_section_config "Some ''AK''" "''AK''" None]
  by (simp add: path_no_section path_no_option no_section_world_facts no_option_world_facts)
     blast

subsection \<open>Error normalizer\<close>

lemma str_nat_204: "str_nat 204 = ''204''"
  by (simp add: str_nat.simps digit_char_def)

lemma str_nat_500: "str_nat 500 = ''500''"
  by (simp add: str_nat.simps digit_char_def)

lemma str_nat_302: "str_nat 302 = ''302''"
  by (simp add: str_nat.simps digit_char_def)

text \<open>The tests of \<^verbatim>\<open>ErrorWrapperTestCase\<close>, run on the model.\<close>

lemma test_204_no_content: "error_wrapper (HttpStatus 204 ''No content'') = Inr ''204 No content''"
  by (simp add: str_nat_204)

lemma test_302_found:
  "error_wrapper (HttpStatus 302 ''found'') = Inl (HttpStatusError 302 ''found'')"
  "str_error (HttpStatusError 302 ''found'') = ''302 found''"
  by (simp_all add: str_nat_302)

lemma test_500:
  "error_wrapper (HttpStatus 500 ''internal error'') = Inl (HttpStatusError 500 ''internal error'')"
  "str_error (HttpStatusError 500 ''internal error'') = ''500 internal error''"
  by (simp_all add: str_nat_500)

lemma test_timeout_error:
  "error_wrapper (OtherFailure ''timeout'') = Inl (TransportError (OtherFailure ''timeout''))"
  "str_error (TransportError (OtherFailure ''timeout'')) = ''timeout''"
  by simp_all

lemma test_connection_error:
  "error_wrapper (ConnectionRefused ''timeout'') = Inl (ConnectionError (ConnectionRefused ''timeout''))"
  by simp

text \<open>
  Claim C3: the normalizer completes successfully, with no error, on every failure that
  carries status 204, and on no failure of any other kind or status: 204 is the only
  status so treated.
\<close>

theorem only_204_is_success:
  "(\<exists>payload. error_wrapper f = Inr payload) \<longleftrightarrow> (\<exists>message. f = HttpStatus 204 message)"
  by (cases f) auto

text \<open>
  Claim C6: on every failure with a status in 300 to 599 the normalizer yields an error
  with the code and, verbatim, the message of the failure, which renders as the failure
  does; status 500 with message \<^verbatim>\<open>internal error\<close> renders as
  \<^verbatim>\<open>500 internal error\<close>.
\<close>

theorem status_error_keeps_message:
  "(300 \<le> code \<and> code \<le> 599 \<longrightarrow>
      error_wrapper (HttpStatus code message) = Inl (HttpStatusError code message)
      \<and> str_error (HttpStatusError code message) = str_failure (HttpStatus code message)
      \<and> str_error (HttpStatusError code message) = str_nat code @ '' '' @ message)
   \<and> str_nat 500 @ '' '' @ ''internal error'' = ''500 internal error''"
  by (simp add: str_nat_500)

theorem status_error_keeps_message_witness:
  "error_wrapper (HttpStatus 500 ''internal error'') = Inl (HttpStatusError 500 ''internal error'')
   \<and> str_error (HttpStatusError 500 ''internal error'') = ''500 internal error''
   \<and> str_failure (HttpStatus 500 ''internal error'') = ''500 internal error''"
  using status_error_keeps_message [of 500 "''internal error''"]
  by simp

subsection \<open>Connection factory\<close>

text \<open>
  Claim C2: for an endpoint with scheme https and hostname verification enabled, every
  connector that the factory returns is the verifying one, to the endpoint's host, bound
  to the endpoint's host, with the trust store's certificate set, which is not empty; the
  port is the endpoint's and 443 when the endpoint has none. The factory returns one
  whenever the trust store gives a non-empty set.
\<close>

theorem https_verifying_connector:
  "(scheme ep = https \<and> verify_hostname ep
      \<and> connect bs default_source ep cache = Inr (conn, cache') \<longrightarrow>
      (\<exists>certs. conn = VerifyingConnector (host ep)
                         (case port ep of Some n \<Rightarrow> n | None \<Rightarrow> 443) (host ep) certs
               \<and> certs \<noteq> {}
               \<and> trust_store_get bs default_source cache = Inr (certs, cache')))
   \<and> (scheme ep = https \<and> verify_hostname ep
        \<and> trust_store_get bs default_source cache = Inr (cs, cache'') \<and> cs \<noteq> {} \<longrightarrow>
      connect bs default_source ep cache
        = Inr (VerifyingConnector (host ep)
                 (case port ep of Some n \<Rightarrow> n | None \<Rightarrow> 443) (host ep) cs, cache''))"
  by (auto simp: connect_def default_port_def Let_def
      split: sum.splits prod.splits if_splits option.splits)

theorem https_verifying_connector_witness:
  "connect example_bundles ''/etc/ssl/certs'' example_endpoint None
     = Inr (VerifyingConnector ''example.com'' 443 ''example.com'' {''certificate''},
            Some {''certificate''})
   \<and> scheme example_endpoint = https \<and> verify_hostname example_endpoint
   \<and> port example_endpoint = None"
proof -
  have ts: "trust_store_get example_bundles ''/etc/ssl/certs'' None
              = Inr ({''certificate''}, Some {''certificate''})"
    by (simp add: trust_store_get_def load_def example_bundles_def)
  have ep: "scheme example_endpoint = https" "verify_hostname example_endpoint"
    "port example_endpoint = None" "host example_endpoint = ''example.com''"
    by (simp_all add: example_endpoint_def)
  show ?thesis
    using https_verifying_connector
            [of example_endpoint example_bundles "''/etc/ssl/certs''" None
                "VerifyingConnector ''example.com'' 443 ''example.com'' {''certificate''}"
                "Some {''certificate''}" "{''certificate''}" "Some {''certificate''}"]
          ts ep
    by simp
qed

subsection \<open>Header accessors\<close>

text \<open>
  Claim C7: on a freshly constructed query both accessors return the absence value
  \<open>None\<close>, and no error; once an exchange has completed, the query that \<open>execute\<close> leaves
  gives the headers that were sent and the headers of the response.
\<close>

theorem headers_absent_then_captured:
  "get_request_headers (BaseQuery a creds ep override) = None
   \<and> get_response_headers (BaseQuery a creds ep override) = None
   \<and> (connect bs default_source (endpoint q) cache = Inr (conn, cache')
        \<and> (case transport q of Some t \<Rightarrow> t | None \<Rightarrow> net) conn (action q) = Inr x \<longrightarrow>
      get_request_headers (fst (snd (execute bs default_source net q cache)))
        = Some (sent_headers x)
      \<and> get_response_headers (fst (snd (execute bs default_source net q cache)))
        = Some (headers (received x)))"
  by (auto simp: BaseQuery_def get_request_headers_def get_response_headers_def execute_def
      Let_def split: sum.splits)

theorem headers_absent_then_captured_witness:
  "get_request_headers (BaseQuery ''an action'' ''creds'' file_endpoint None) = None
   \<and> get_response_headers (BaseQuery ''an action'' ''creds'' file_endpoint None) = None
   \<and> get_request_headers
        (fst (snd (execute example_bundles ''/etc/ssl/certs'' file_net
                     (BaseQuery ''an action'' ''creds'' file_endpoint None) None)))
       = Some []
   \<and> get_response_headers
        (fst (snd (execute example_bundles ''/etc/ssl/certs'' file_net
                     (BaseQuery ''an action'' ''creds'' file_endpoint None) None)))
       = Some [(''content-length'', ''10''), (''content-type'', ''text/html'')]"
proof -
  have c: "connect example_bundles ''/etc/ssl/certs''
             (endpoint (BaseQuery ''an action'' ''creds'' file_endpoint None)) None
           = Inr (PlainConnector ''127.0.0.1'' 8080, None)"
    by (simp add: connect_def BaseQuery_def file_endpoint_def)
  have t: "(case transport (BaseQuery ''an action'' ''creds'' file_endpoint None) of
              Some t \<Rightarrow> t | None \<Rightarrow> file_net)
             (PlainConnector ''127.0.0.1'' 8080)
             (action (BaseQuery ''an action'' ''creds'' file_endpoint None))
           = Inr file_exchange"
    by (simp add: BaseQuery_def file_net_def)
  show ?thesis
    using headers_absent_then_captured
            [of "''an action''" "''creds''" file_endpoint None example_bundles
                "''/etc/ssl/certs''" "BaseQuery ''an action'' ''creds'' file_endpoint None"
                None "PlainConnector ''127.0.0.1'' 8080" None file_net file_exchange]
          c t
    by (simp add: file_exchange_def)
qed

end
